theory Spec2Isabelle
  imports Complex_Main "HOL-Library.Sublist" "HOL-Library.Log_Nat"
begin

section \<open>Python values\<close>

text \<open>
  A Python \<open>float\<close> is modelled by \<open>pyfloat\<close>: a finite value by the real number it denotes,
  and the three non-finite values by constructors of their own. A field that the validators of
  \<open>models/case_input.py\<close> guarantee to be finite (a transaction amount) and the aggregates
  computed from such fields have type \<open>real\<close>; a field that no validator checks (the
  customer's expected volume and declared income) keeps type \<open>pyfloat\<close>.

  The sums and quotients of \<open>components/data_parser.py\<close> round as IEEE doubles do: the result
  of an addition or a division is the double nearest to the exact result, a tie going to the
  even one (\<open>fl\<close>). Overflow to infinity is outside the model. The confidence arithmetic of
  \<open>components/rag_engine.py\<close> is kept exact.
\<close>

datatype pyfloat = Fin real | PosInf | NegInf | NaN

datatype error = ValidationError | ZeroDivisionError | IndexError | BackendError string

subsection \<open>Rounding to a double\<close>

definition round_half_even :: "real \<Rightarrow> int" where
  "round_half_even x =
     (let f = \<lfloor>x\<rfloor>; d = x - of_int f
      in if d < 1 / 2 then f else if d > 1 / 2 then f + 1
         else if even f then f else f + 1)"

text \<open>The exponent \<open>e\<close> of a non-zero \<open>x\<close>, with \<open>2\<^sup>e \<le> |x| < 2\<^sup>e\<^sup>+\<^sup>1\<close>, computed from the number of
  bits of an integer.\<close>

definition float_exponent :: "real \<Rightarrow> int" where
  "float_exponent x =
     (if 1 \<le> \<bar>x\<bar> then bitlen \<lfloor>\<bar>x\<bar>\<rfloor> - 1 else - bitlen (\<lceil>1 / \<bar>x\<bar>\<rceil> - 1))"

text \<open>The distance between neighbouring doubles around \<open>x\<close>: 53 significant bits, and the
  fixed spacing of the subnormal numbers below \<open>2\<^sup>-\<^sup>1\<^sup>0\<^sup>2\<^sup>2\<close>.\<close>

definition ulp :: "real \<Rightarrow> real" where
  "ulp x = 2 powi (max (float_exponent x) (- 1022) - 52)"

definition fl :: "real \<Rightarrow> real" where
  "fl x = (if x = 0 then 0 else of_int (round_half_even (x / ulp x)) * ulp x)"

definition float_add :: "real \<Rightarrow> real \<Rightarrow> real" where
  "float_add x y = fl (x + y)"

text \<open>\<open>sum(xs)\<close> on floats: CPython (before 3.12) adds from left to right, starting from 0.\<close>

definition py_sum :: "real list \<Rightarrow> real" where
  "py_sum xs = foldl float_add 0 xs"

subsection \<open>Comparison, division, remainder\<close>

text \<open>\<open>x > r\<close> for a float \<open>x\<close> and a finite constant \<open>r\<close>; every comparison with NaN is false.\<close>

fun pf_gt :: "pyfloat \<Rightarrow> real \<Rightarrow> bool" where
  "pf_gt (Fin x) r = (x > r)"
| "pf_gt PosInf r = True"
| "pf_gt NegInf r = False"
| "pf_gt NaN r = False"

text \<open>\<open>x / y\<close> for a finite \<open>x\<close>: Python raises ZeroDivisionError on a zero divisor.\<close>

fun pf_truediv :: "real \<Rightarrow> pyfloat \<Rightarrow> error + pyfloat" where
  "pf_truediv x (Fin y) = (if y = 0 then Inl ZeroDivisionError else Inr (Fin (fl (x / y))))"
| "pf_truediv x PosInf = Inr (Fin 0)"
| "pf_truediv x NegInf = Inr (Fin 0)"
| "pf_truediv x NaN = Inr NaN"

definition py_truediv :: "real \<Rightarrow> real \<Rightarrow> error + real" where
  "py_truediv x y = (if y = 0 then Inl ZeroDivisionError else Inr (fl (x / y)))"

text \<open>\<open>x % m\<close> for a positive \<open>m\<close>: the remainder has the sign of the divisor. The remainder
  of two doubles is a double, so that nothing is rounded.\<close>

definition py_mod :: "real \<Rightarrow> real \<Rightarrow> real" where
  "py_mod x m = x - m * of_int \<lfloor>x / m\<rfloor>"

subsection \<open>String formatting\<close>

definition digit_char :: "nat \<Rightarrow> char" where
  "digit_char d = ''0123456789'' ! d"

fun str_nat :: "nat \<Rightarrow> string" where
  "str_nat n = (if n < 10 then [digit_char n] else str_nat (n div 10) @ [digit_char (n mod 10)])"

declare str_nat.simps [simp del]

definition str_int :: "int \<Rightarrow> string" where
  "str_int i = (if i < 0 then ''-'' @ str_nat (nat (- i)) else str_nat (nat i))"

text \<open>The \<open>,\<close> option of a format specification: a comma between groups of three digits,
  counted from the right. \<open>group3\<close> works on the reversed digit string.\<close>

fun group3 :: "string \<Rightarrow> string" where
  "group3 (a # b # c # d # ds) = a # b # c # CHR '','' # group3 (d # ds)"
| "group3 ds = ds"

definition commas :: "string \<Rightarrow> string" where
  "commas ds = rev (group3 (rev ds))"

text \<open>Fixed-point formatting rounds the exact value to the nearest multiple of
  \<open>10\<^sup>-\<^sup>p\<close>, a tie to the even one.\<close>

definition format_fixed :: "bool \<Rightarrow> nat \<Rightarrow> real \<Rightarrow> string" where
  "format_fixed grouped prec x =
     (let n = nat (round_half_even (\<bar>x\<bar> * 10 ^ prec));
          ip = str_nat (n div 10 ^ prec);
          fp = str_nat (n mod 10 ^ prec)
      in (if x < 0 then ''-'' else [])
         @ (if grouped then commas ip else ip)
         @ (if prec = 0 then [] else ''.'' @ replicate (prec - length fp) CHR ''0'' @ fp))"

fun format_float :: "bool \<Rightarrow> nat \<Rightarrow> pyfloat \<Rightarrow> string" where
  "format_float grouped prec (Fin x) = format_fixed grouped prec x"
| "format_float grouped prec PosInf = ''inf''"
| "format_float grouped prec NegInf = ''-inf''"
| "format_float grouped prec NaN = ''nan''"

text \<open>\<open>sep.join(xs)\<close>\<close>

fun join :: "string \<Rightarrow> string list \<Rightarrow> string" where
  "join sep [] = []"
| "join sep [x] = x"
| "join sep (x # y # ys) = x @ sep @ join sep (y # ys)"

subsection \<open>Strings\<close>

text \<open>
  A Python \<open>str\<close> is a sequence of code points; the model has the 8-bit \<open>char\<close> of HOL, read
  as the code points 0 to 255 (Latin-1). Text with other code points is outside the model.
  On these code points \<open>str.lower\<close> moves \<open>A\<close> to \<open>Z\<close> and the accented capitals 192 to 222
  (but not 215, the multiplication sign) up by 32, and \<open>str.isspace\<close>, which \<open>strip\<close> and the
  regular expression \<open>\s\<close> use, holds for twelve of them.
\<close>

definition lower_char :: "char \<Rightarrow> char" where
  "lower_char c =
     (let n = (of_char c :: nat)
      in if (65 \<le> n \<and> n \<le> 90) \<or> (192 \<le> n \<and> n \<le> 222 \<and> n \<noteq> 215)
         then char_of (n + 32) else c)"

definition lower :: "string \<Rightarrow> string" where
  "lower s = map lower_char s"

definition is_space :: "char \<Rightarrow> bool" where
  "is_space c = ((of_char c :: nat) \<in> {9, 10, 11, 12, 13, 28, 29, 30, 31, 32, 133, 160})"

definition strip :: "string \<Rightarrow> string" where
  "strip s = rev (dropWhile is_space (rev (dropWhile is_space s)))"

section \<open>Case model (\<open>models/case_input.py\<close>)\<close>

record transaction =
  date :: string
  amount :: real
  currency :: string
  type :: string
  originator :: string
  beneficiary :: string
  description :: string

record customer_info =
  name :: string
  account_number :: string
  kyc_risk_rating :: string
  occupation :: string
  account_open_date :: string
  expected_monthly_volume :: pyfloat
  declared_income :: pyfloat
  address :: string
  pan_number :: string

record case_input =
  case_id :: string
  customer :: customer_info
  transactions :: "transaction list"
  alert_reason :: string
  investigation_notes :: string
  alert_date :: string
  assigned_analyst :: string

section \<open>Statistics, patterns and risk score (\<open>components/data_parser.py\<close>)\<close>

text \<open>
  The standard library's \<open>datetime\<close> is a parameter. A \<open>datetime\<close> parsed from a date-only
  format is the midnight of a day and is represented by its day number (\<open>toordinal()\<close>), so
  that \<open>min\<close>, \<open>max\<close> and \<open>(a - b).days\<close> are those of \<open>int\<close>. \<open>strptime lib s fmt\<close> is
  \<open>None\<close> where Python raises ValueError.
\<close>

record datetime_lib =
  strptime :: "string \<Rightarrow> string \<Rightarrow> int option"
  strftime :: "int \<Rightarrow> string \<Rightarrow> string"

text \<open>The dictionary returned by \<open>calculate_transaction_stats\<close>: one field for each of its
  sixteen keys (the key \<open>currency\<close> is the field \<open>stats_currency\<close>).\<close>

record stats =
  total_transactions :: int
  total_volume :: real
  total_credits :: real
  total_debits :: real
  credit_count :: int
  debit_count :: int
  avg_amount :: real
  max_amount :: real
  min_amount :: real
  date_range_start :: string
  date_range_end :: string
  date_range_days :: int
  transaction_types :: "(string \<times> int) list"
  stats_currency :: string
  unique_originators :: int
  unique_beneficiaries :: int

text \<open>The loop that collects the parseable dates: the first format, then the second, and
  a date that matches neither is left out.\<close>

fun parse_dates :: "datetime_lib \<Rightarrow> transaction list \<Rightarrow> int list" where
  "parse_dates lib [] = []"
| "parse_dates lib (t # ts) =
     (case strptime lib (date t) ''%Y-%m-%d'' of
        Some d \<Rightarrow> d # parse_dates lib ts
      | None \<Rightarrow>
         (case strptime lib (date t) ''%d-%m-%Y'' of
            Some d \<Rightarrow> d # parse_dates lib ts
          | None \<Rightarrow> parse_dates lib ts))"

text \<open>\<open>min\<close> and \<open>max\<close> of the non-empty list \<open>x # xs\<close>. The source guards every call by
  a test that the list is not empty; the model makes the same test by a \<open>case\<close> on the list.\<close>

definition py_min :: "'a::linorder \<Rightarrow> 'a list \<Rightarrow> 'a" where
  "py_min x xs = fold min xs x"

definition py_max :: "'a::linorder \<Rightarrow> 'a list \<Rightarrow> 'a" where
  "py_max x xs = fold max xs x"

text \<open>\<open>Counter\<close>: the keys in order of first occurrence, each with its count.\<close>

fun counter_add :: "'a \<Rightarrow> ('a \<times> int) list \<Rightarrow> ('a \<times> int) list" where
  "counter_add k [] = [(k, 1)]"
| "counter_add k ((k', n) # kvs) =
     (if k' = k then (k', n + 1) # kvs else (k', n) # counter_add k kvs)"

definition Counter :: "'a list \<Rightarrow> ('a \<times> int) list" where
  "Counter xs = foldl (\<lambda>c k. counter_add k c) [] xs"

definition calculate_transaction_stats ::
  "datetime_lib \<Rightarrow> transaction list \<Rightarrow> error + stats" where
  "calculate_transaction_stats lib txs =
     (if txs = [] then
        Inr \<lparr> total_transactions = 0, total_volume = 0, total_credits = 0, total_debits = 0,
              credit_count = 0, debit_count = 0, avg_amount = 0, max_amount = 0,
              min_amount = 0, date_range_start = ''N/A'', date_range_end = ''N/A'',
              date_range_days = 0, transaction_types = [], stats_currency = ''INR'',
              unique_originators = 0, unique_beneficiaries = 0 \<rparr>
      else
        let amounts = map amount txs;
            credits = filter (\<lambda>t. amount t > 0) txs;
            debits = filter (\<lambda>t. amount t < 0) txs;
            dates = parse_dates lib txs;
            start = (case dates of [] \<Rightarrow> ''N/A''
                     | d # ds \<Rightarrow> strftime lib (py_min d ds) ''%Y-%m-%d'');
            end = (case dates of [] \<Rightarrow> ''N/A''
                   | d # ds \<Rightarrow> strftime lib (py_max d ds) ''%Y-%m-%d'');
            days = (case dates of
                      d # d' # ds \<Rightarrow> py_max d (d' # ds) - py_min d (d' # ds) + 1
                    | _ \<Rightarrow> 1);
            txn_types = Counter (map type txs);
            cur = (case txs of [] \<Rightarrow> ''INR'' | t # _ \<Rightarrow> currency t);
            abs_amounts = map abs amounts;
            volume = py_sum abs_amounts
        in case (if length amounts > 0 then py_truediv volume (real (length amounts))
                 else Inr 0) of
             Inl e \<Rightarrow> Inl e
           | Inr avg \<Rightarrow>
               Inr \<lparr> total_transactions = int (length txs),
                     total_volume = volume,
                     total_credits = py_sum (map amount credits),
                     total_debits = py_sum (map (\<lambda>t. \<bar>amount t\<bar>) debits),
                     credit_count = int (length credits),
                     debit_count = int (length debits),
                     avg_amount = avg,
                     max_amount = (case abs_amounts of [] \<Rightarrow> 0 | a # as \<Rightarrow> py_max a as),
                     min_amount = (case abs_amounts of [] \<Rightarrow> 0 | a # as \<Rightarrow> py_min a as),
                     date_range_start = start,
                     date_range_end = end,
                     date_range_days = days,
                     transaction_types = txn_types,
                     stats_currency = cur,
                     unique_originators = int (card (set (map originator txs))),
                     unique_beneficiaries = int (card (set (map beneficiary txs))) \<rparr>)"

subsection \<open>The nine heuristics\<close>

definition threshold :: real where
  "threshold = 1000000"

text \<open>Pattern 3 keeps a dictionary from date to the day's credit and debit sums; a
  dictionary iterates in insertion order, so it is an association list here.\<close>

fun dates_amounts_add ::
  "transaction \<Rightarrow> (string \<times> real \<times> real) list \<Rightarrow> (string \<times> real \<times> real) list" where
  "dates_amounts_add t [] =
     [(date t, if amount t > 0 then (float_add 0 (amount t), 0)
               else (0, float_add 0 \<bar>amount t\<bar>))]"
| "dates_amounts_add t ((k, c, d) # kvs) =
     (if k = date t
      then (k, if amount t > 0 then (float_add c (amount t), d)
               else (c, float_add d \<bar>amount t\<bar>)) # kvs
      else (k, c, d) # dates_amounts_add t kvs)"

definition dates_amounts :: "transaction list \<Rightarrow> (string \<times> real \<times> real) list" where
  "dates_amounts txs = foldl (\<lambda>m t. dates_amounts_add t m) [] txs"

definition high_risk_types :: "string list" where
  "high_risk_types = [''SWIFT'', ''Wire Transfer'', ''Hawala'']"

text \<open>
  \<open>identify_patterns\<close> evaluates nine blocks in a fixed order and appends what each one
  finds. Each block is a definition of its own here, named after the comment that heads it in
  the source; the two blocks that divide return a sum, so that a ZeroDivisionError would be a
  value of the model.
\<close>

text \<open>Pattern 1: Structuring (amounts below reporting threshold)\<close>

definition near_threshold :: "case_input \<Rightarrow> transaction list" where
  "near_threshold c =
     filter (\<lambda>t. 0 < amount t \<and> amount t < threshold \<and> amount t > threshold * 0.8)
       (transactions c)"

definition structuring :: "case_input \<Rightarrow> string list" where
  "structuring c =
     (if length (near_threshold c) \<ge> 3
      then [''Structuring: '' @ str_nat (length (near_threshold c))
            @ '' transactions just below INR '' @ format_fixed True 0 threshold
            @ '' reporting threshold'']
      else [])"

text \<open>Pattern 2: Volume spike\<close>

definition volume_spike :: "case_input \<Rightarrow> stats \<Rightarrow> error + string list" where
  "volume_spike c st =
     (let expected = expected_monthly_volume (customer c)
      in if pf_gt expected 0 \<and> total_volume st > 0
         then (case pf_truediv (total_volume st) expected of
                 Inl e \<Rightarrow> Inl e
               | Inr ratio \<Rightarrow>
                   Inr (if pf_gt ratio 3
                        then [''Volume spike: '' @ format_float False 1 ratio
                              @ ''x above expected monthly volume'']
                        else []))
         else Inr [])"

text \<open>Pattern 3: Rapid movement (same-day credits and debits)\<close>

definition rapid_movement :: "case_input \<Rightarrow> string list" where
  "rapid_movement c =
     map (\<lambda>(d, vals). ''Rapid movement: Credits and debits on same day ('' @ d @ '')'')
       (filter (\<lambda>(d, credits, debits). credits > 0 \<and> debits > 0)
          (dates_amounts (transactions c)))"

text \<open>Pattern 4: Multiple small deposits\<close>

definition small_deposits :: "case_input \<Rightarrow> transaction list" where
  "small_deposits c = filter (\<lambda>t. 0 < amount t \<and> amount t < 200000) (transactions c)"

definition multiple_small_deposits :: "case_input \<Rightarrow> string list" where
  "multiple_small_deposits c =
     (if length (small_deposits c) \<ge> 5
      then [''Multiple small deposits: '' @ str_nat (length (small_deposits c))
            @ '' deposits under INR 2,00,000'']
      else [])"

text \<open>Pattern 5: Income mismatch\<close>

definition income_mismatch :: "case_input \<Rightarrow> stats \<Rightarrow> error + string list" where
  "income_mismatch c st =
     (let declared = declared_income (customer c)
      in if pf_gt declared 0 \<and> total_volume st > 0
         then (case pf_truediv (total_volume st) declared of
                 Inl e \<Rightarrow> Inl e
               | Inr income_ratio \<Rightarrow>
                   Inr (if pf_gt income_ratio 2
                        then [''Income mismatch: Transaction volume ''
                              @ format_float False 1 income_ratio
                              @ ''x declared annual income'']
                        else []))
         else Inr [])"

text \<open>Pattern 6: Multiple unique counterparties\<close>

definition multiple_originators :: "stats \<Rightarrow> string list" where
  "multiple_originators st =
     (let originators = unique_originators st
      in if originators > 10
         then [''Multiple originators: '' @ str_int originators
               @ '' unique sources in '' @ str_int (date_range_days st) @ '' days'']
         else [])"

text \<open>Pattern 7: Round-number transactions\<close>

definition round_txns :: "case_input \<Rightarrow> transaction list" where
  "round_txns c =
     filter (\<lambda>t. amount t > 0 \<and> py_mod (amount t) 10000 = 0) (transactions c)"

definition round_number :: "case_input \<Rightarrow> string list" where
  "round_number c =
     (if length (round_txns c) \<ge> 3
      then [''Round-number transactions: '' @ str_nat (length (round_txns c))
            @ '' transactions in exact round amounts'']
      else [])"

text \<open>Pattern 8: Large single transaction\<close>

definition large_transaction :: "case_input \<Rightarrow> string list" where
  "large_transaction c =
     map (\<lambda>t. ''Large transaction: '' @ currency t @ '' ''
               @ format_fixed True 2 \<bar>amount t\<bar> @ '' on '' @ date t)
       (filter (\<lambda>t. \<bar>amount t\<bar> \<ge> 5000000) (transactions c))"

text \<open>Pattern 9: High-risk transaction types. The order in which a Python \<open>set\<close> of strings
  iterates is not specified; the model lists the distinct types in the order \<open>remdups\<close>
  gives.\<close>

definition hr_txns :: "case_input \<Rightarrow> transaction list" where
  "hr_txns c = filter (\<lambda>t. type t \<in> set high_risk_types) (transactions c)"

definition high_risk_transfer :: "case_input \<Rightarrow> string list" where
  "high_risk_transfer c =
     (if hr_txns c \<noteq> []
      then [''High-risk transfer types: '' @ str_nat (length (hr_txns c)) @ '' ''
            @ join '', '' (remdups (map type (hr_txns c))) @ '' transactions'']
      else [])"

definition identify_patterns :: "case_input \<Rightarrow> stats \<Rightarrow> error + string list" where
  "identify_patterns c st =
     (if transactions c = [] then Inr []
      else
        case volume_spike c st of
          Inl e \<Rightarrow> Inl e
        | Inr spike \<Rightarrow>
            (case income_mismatch c st of
               Inl e \<Rightarrow> Inl e
             | Inr mismatch \<Rightarrow>
                 Inr (structuring c @ spike @ rapid_movement c @ multiple_small_deposits c
                      @ mismatch @ multiple_originators st @ round_number c
                      @ large_transaction c @ high_risk_transfer c)))"

subsection \<open>Risk score\<close>

definition risk_map :: "string \<Rightarrow> int option" where
  "risk_map = [''High'' \<mapsto> 15, ''Medium'' \<mapsto> 5, ''Low'' \<mapsto> 0]"

definition calculate_risk_score :: "string list \<Rightarrow> stats \<Rightarrow> case_input \<Rightarrow> error + int" where
  "calculate_risk_score patterns st c =
     (let score = 0 + min (int (length patterns) * 10) 40;
          expected = expected_monthly_volume (customer c);
          volume = total_volume st
      in case (if pf_gt expected 0 \<and> volume > 0
               then (case pf_truediv volume expected of
                       Inl e \<Rightarrow> Inl e
                     | Inr ratio \<Rightarrow>
                         Inr (if pf_gt ratio 10 then score + 25
                              else if pf_gt ratio 5 then score + 15
                              else if pf_gt ratio 3 then score + 10
                              else score))
               else Inr score) of
           Inl e \<Rightarrow> Inl e
         | Inr score \<Rightarrow>
      let score = score + (case risk_map (kyc_risk_rating (customer c)) of
                             Some v \<Rightarrow> v | None \<Rightarrow> 5);
          originators = unique_originators st;
          score = (if originators > 20 then score + 10
                   else if originators > 10 then score + 5
                   else score)
      in Inr (min score 100))"

section \<open>Typology classification (\<open>components/rag_engine.py\<close>)\<close>

text \<open>
  The similarity store (ChromaDB) is a parameter: \<open>collection_query text n where_type\<close> is the
  answer of \<open>collection.query(query_texts=[text], n_results=n, where={"type": where_type})\<close>,
  \<open>None\<close> for an answer that is empty or \<open>None\<close>. Of the answer the code reads two keys: the
  metadata dictionaries (one list for each query text) and the distances (the empty list
  stands for a missing or \<open>None\<close> value).
\<close>

record query_result =
  metadatas :: "(string \<times> string) list list list"
  distances :: "real list list"

definition keyword_map :: "(string \<times> string list) list" where
  "keyword_map =
     [(''structuring'', [''structuring'', ''threshold'', ''smurfing'', ''below reporting'']),
      (''layering'', [''layering'', ''multiple accounts'', ''rapid transfer'', ''cross-border'']),
      (''wire_fraud'', [''wire'', ''swift'', ''remittance'', ''foreign'']),
      (''cash_business'', [''cash'', ''retail'', ''business volume'']),
      (''identity_theft'', [''identity'', ''kyc'', ''synthetic'', ''document'']),
      (''rapid_movement'', [''rapid'', ''same day'', ''immediate transfer'']),
      (''round_tripping'', [''round-trip'', ''foreign investment'', ''circular''])]"

text \<open>The loop over the keyword table: a typology some keyword of which occurs in the text
  raises the confidence by 15, up to 100, when it is the retrieved typology, and does nothing
  otherwise.\<close>

definition keyword_boost ::
  "string \<Rightarrow> string \<Rightarrow> real \<Rightarrow> (string \<times> string list) list \<Rightarrow> real" where
  "keyword_boost typology combined_text confidence table =
     foldl (\<lambda>conf (typo, keywords).
              if list_ex (\<lambda>kw. sublist kw combined_text) keywords
              then (if typo = typology then min 100 (conf + 15) else conf)
              else conf)
       confidence table"

text \<open>What the code reads from the answer: \<open>None\<close> when the test
  \<open>results and results["metadatas"] and results["metadatas"][0]\<close> fails, otherwise the
  typology of the first metadata dictionary (\<open>unknown\<close> without that key) and the first
  distance (1.0 without distances); a distance list that is there but empty is an
  IndexError.\<close>

definition retrieved :: "query_result option \<Rightarrow> error + (string \<times> real) option" where
  "retrieved answer =
     (case answer of
        None \<Rightarrow> Inr None
      | Some results \<Rightarrow>
          (case metadatas results of
             [] \<Rightarrow> Inr None
           | [] # _ \<Rightarrow> Inr None
           | (md # _) # _ \<Rightarrow>
               let typology = (case map_of md ''typology'' of
                                 Some t \<Rightarrow> t | None \<Rightarrow> ''unknown'')
               in case distances results of
                    [] \<Rightarrow> Inr (Some (typology, 1))
                  | [] # _ \<Rightarrow> Inl IndexError
                  | (d # _) # _ \<Rightarrow> Inr (Some (typology, d))))"

definition identify_typology ::
  "(string \<Rightarrow> nat \<Rightarrow> string \<Rightarrow> query_result option) \<Rightarrow> string list \<Rightarrow> string
     \<Rightarrow> error + string \<times> real" where
  "identify_typology collection_query patterns reason =
     (let query = ''Patterns: '' @ join ''; '' patterns @ ''. Alert: '' @ reason
      in case retrieved (collection_query query 1 ''typology'') of
           Inl e \<Rightarrow> Inl e
         | Inr None \<Rightarrow> Inr (''unknown'', 0)
         | Inr (Some (typology, distance)) \<Rightarrow>
             let confidence = max 0 (min 100 ((1 - distance) * 100));
                 combined_text = lower (reason @ '' '' @ join '' '' patterns)
             in Inr (typology,
                     keyword_boost typology combined_text confidence keyword_map))"

section \<open>Narrative sections (\<open>components/llm_orchestrator.py\<close>)\<close>

text \<open>
  The five header patterns are literals separated by \<open>\s*\<close>, searched with \<open>re.IGNORECASE\<close>.
  A pattern is a list of items; \<open>match_here\<close> is the backtracking matcher at the start of a
  string (the number of characters matched), with \<open>\s*\<close> greedy, and \<open>re_search\<close> returns the
  start and the end of the leftmost match.
\<close>

datatype re_item = Lit string | Spaces

fun match_lit :: "string \<Rightarrow> string \<Rightarrow> bool" where
  "match_lit [] s = True"
| "match_lit (p # ps) [] = False"
| "match_lit (p # ps) (c # cs) = (lower_char p = lower_char c \<and> match_lit ps cs)"

fun match_here :: "re_item list \<Rightarrow> string \<Rightarrow> nat option" where
  "match_here [] s = Some 0"
| "match_here (Lit l # items) s =
     (if match_lit l s
      then map_option (\<lambda>n. length l + n) (match_here items (drop (length l) s))
      else None)"
| "match_here (Spaces # items) [] = match_here items []"
| "match_here (Spaces # items) (c # cs) =
     (if is_space c
      then (case match_here (Spaces # items) cs of
              Some n \<Rightarrow> Some (Suc n)
            | None \<Rightarrow> match_here items (c # cs))
      else match_here items (c # cs))"

fun re_search :: "re_item list \<Rightarrow> string \<Rightarrow> (nat \<times> nat) option" where
  "re_search pat [] = map_option (\<lambda>n. (0, n)) (match_here pat [])"
| "re_search pat (c # cs) =
     (case match_here pat (c # cs) of
        Some n \<Rightarrow> Some (0, n)
      | None \<Rightarrow> map_option (\<lambda>(a, b). (Suc a, Suc b)) (re_search pat cs))"

definition section_headers :: "(string \<times> re_item list) list" where
  "section_headers =
     [(''I'', [Lit ''I.'', Spaces, Lit ''SUMMARY'', Spaces, Lit ''OF'', Spaces,
               Lit ''SUSPICIOUS'', Spaces, Lit ''ACTIVITY'']),
      (''II'', [Lit ''II.'', Spaces, Lit ''ACCOUNT'', Spaces, Lit ''AND'', Spaces,
                Lit ''CUSTOMER'', Spaces, Lit ''INFORMATION'']),
      (''III'', [Lit ''III.'', Spaces, Lit ''DESCRIPTION'', Spaces, Lit ''OF'', Spaces,
                 Lit ''SUSPICIOUS'', Spaces, Lit ''ACTIVITY'']),
      (''IV'', [Lit ''IV.'', Spaces, Lit ''EXPLANATION'', Spaces, Lit ''OF'', Spaces,
                Lit ''SUSPICION'']),
      (''V'', [Lit ''V.'', Spaces, Lit ''CONCLUSION''])]"

text \<open>The loop over the headers. The dictionary \<open>sections\<close> is the list of its items in
  insertion order; every key is assigned at most once.\<close>

fun parse_sections :: "(string \<times> re_item list) list \<Rightarrow> string \<Rightarrow> (string \<times> string) list" where
  "parse_sections [] text = []"
| "parse_sections ((key, pat) # headers) text =
     (case re_search pat text of
        None \<Rightarrow> parse_sections headers text
      | Some (_, start) \<Rightarrow>
          (let end = (case headers of
                        [] \<Rightarrow> length text
                      | (_, next_pat) # _ \<Rightarrow>
                          (case re_search next_pat (drop start text) of
                             Some (next_start, _) \<Rightarrow> start + next_start
                           | None \<Rightarrow> length text))
           in (key, strip (take (end - start) (drop start text)))
              # parse_sections headers text))"

definition parse_narrative :: "string \<Rightarrow> (string \<times> string) list" where
  "parse_narrative text =
     (let sections = parse_sections section_headers text
      in if sections = [] then [(''I'', strip text)] else sections)"

section \<open>Narrative generation (\<open>components/llm_orchestrator.py\<close>)\<close>

text \<open>
  The text-generation backends and the clock are parameters. An \<open>outcome\<close> is what a call into
  a library does: it returns, it raises ImportError, or it raises another exception (a
  subclass of \<open>Exception\<close>), each with its message.
\<close>

datatype 'a outcome = Returns 'a | ImportError string | Raises string

record llm_env =
  langchain_invoke :: "string \<Rightarrow> string \<Rightarrow> real \<Rightarrow> int \<Rightarrow> string \<Rightarrow> string outcome"
  ollama_chat :: "string \<Rightarrow> string \<Rightarrow> string \<Rightarrow> real \<Rightarrow> int \<Rightarrow> string outcome"
  time_start :: real
  time_end :: real
  now :: real

text \<open>
  The prompt template is a file of the repository that is read at construction
  (\<open>prompts/user_prompt_template.txt\<close>, with a default in the code). It is used through
  \<open>str.format\<close> with keyword arguments only, so it is modelled by that use: a function from the
  keyword arguments to the formatted text, \<open>None\<close> when the template names a key that is not
  supplied (KeyError, the one failure the code handles).
\<close>

datatype pyvalue = PyStr string | PyInt int | PyFloat pyfloat

record llm_orchestrator =
  model :: string
  temperature :: real
  max_tokens :: int
  base_url :: string
  system_prompt :: string
  user_template :: "(string \<times> pyvalue) list \<Rightarrow> string option"

record llm_callback =
  prompt_sent :: string
  response_received :: string
  model_used :: string
  start_time :: "real option"
  end_time :: "real option"
  token_count :: int

text \<open>\<open>SARNarrative\<close> of \<open>models/sar_output.py\<close>.\<close>

record sar_narrative =
  sar_case_id :: string
  generated_at :: real
  narrative_text :: string
  sections :: "(string \<times> string) list"
  confidence_score :: real
  sar_typology :: string
  red_flags :: "string list"
  templates_used :: "string list"
  model_version :: string
  transaction_stats :: stats

definition call_ollama :: "llm_orchestrator \<Rightarrow> llm_env \<Rightarrow> string \<Rightarrow> error + string" where
  "call_ollama self env prompt =
     (case langchain_invoke env (model self) (base_url self) (temperature self)
             (max_tokens self) (system_prompt self @ ''\<newline>\<newline>'' @ prompt) of
        Returns response \<Rightarrow> Inr response
      | Raises e \<Rightarrow> Inl (BackendError e)
      | ImportError _ \<Rightarrow>
          (case ollama_chat env (model self) (system_prompt self) prompt (temperature self)
                  (max_tokens self) of
             Returns content \<Rightarrow> Inr content
           | Raises e \<Rightarrow> Inl (BackendError (''All LLM backends failed: '' @ e))
           | ImportError e \<Rightarrow> Inl (BackendError (''All LLM backends failed: '' @ e))))"

definition or_else :: "string \<Rightarrow> string \<Rightarrow> string" where
  "or_else s d = (if s = [] then d else s)"

definition build_prompt ::
  "llm_orchestrator \<Rightarrow> case_input \<Rightarrow> stats \<Rightarrow> string list \<Rightarrow> string \<Rightarrow> int \<Rightarrow> string \<Rightarrow> string
     \<Rightarrow> string" where
  "build_prompt self c st patterns typology risk_score regulatory_context template_reference =
     (let patterns_text = join ''\<newline>'' (map (\<lambda>p. ''- '' @ p) patterns);
          txn_types = join '', '' (map (\<lambda>(k, v). k @ '': '' @ str_int v) (transaction_types st))
      in case user_template self
           [(''case_id'', PyStr (case_id c)),
            (''alert_date'', PyStr (or_else (alert_date c) ''N/A'')),
            (''alert_reason'', PyStr (alert_reason c)),
            (''customer_name'', PyStr (name (customer c))),
            (''account_number'', PyStr (account_number (customer c))),
            (''occupation'', PyStr (or_else (occupation (customer c)) ''Not specified'')),
            (''risk_rating'', PyStr (kyc_risk_rating (customer c))),
            (''account_open_date'', PyStr (or_else (account_open_date (customer c)) ''N/A'')),
            (''currency'', PyStr (stats_currency st)),
            (''expected_volume'', PyFloat (expected_monthly_volume (customer c))),
            (''declared_income'', PyFloat (declared_income (customer c))),
            (''transaction_count'', PyInt (total_transactions st)),
            (''total_volume'', PyFloat (Fin (total_volume st))),
            (''total_credits'', PyFloat (Fin (total_credits st))),
            (''total_debits'', PyFloat (Fin (total_debits st))),
            (''credit_count'', PyInt (credit_count st)),
            (''debit_count'', PyInt (debit_count st)),
            (''avg_amount'', PyFloat (Fin (avg_amount st))),
            (''max_amount'', PyFloat (Fin (max_amount st))),
            (''date_range_start'', PyStr (date_range_start st)),
            (''date_range_end'', PyStr (date_range_end st)),
            (''date_range_days'', PyInt (date_range_days st)),
            (''transaction_types'', PyStr txn_types),
            (''patterns'', PyStr patterns_text),
            (''typology'', PyStr typology),
            (''risk_score'', PyInt risk_score),
            (''investigation_notes'', PyStr (or_else (investigation_notes c) ''None provided'')),
            (''regulatory_context'', PyStr regulatory_context),
            (''template_reference'',
               PyStr (if template_reference \<noteq> [] then take 2000 template_reference
                    else ''No template available''))] of
           Some prompt \<Rightarrow> prompt
         | None \<Rightarrow>
             ''Generate a SAR narrative for case '' @ case_id c @ ''.\<newline>''
             @ ''Alert: '' @ alert_reason c @ ''\<newline>''
             @ ''Patterns: '' @ patterns_text @ ''\<newline>''
             @ ''Typology: '' @ typology @ ''\<newline>''
             @ ''Risk Score: '' @ str_int risk_score @ ''/100\<newline>''
             @ ''Regulatory Context: '' @ regulatory_context)"

definition generate_fallback_narrative ::
  "case_input \<Rightarrow> stats \<Rightarrow> string list \<Rightarrow> string \<Rightarrow> string" where
  "generate_fallback_narrative c st patterns typology =
     (let currency = stats_currency st;
          total_volume = total_volume st;
          total_txns = total_transactions st;
          date_start = date_range_start st;
          date_end = date_range_end st;
          expected_vol = expected_monthly_volume (customer c);
          patterns_text = join ''\<newline>'' (map (\<lambda>p. ''- '' @ p) patterns)
      in ''I. SUMMARY OF SUSPICIOUS ACTIVITY\<newline>\<newline>This report is fi''
         @ ''led regarding suspicious transactions identified in the account of ''
         @ name (customer c)
         @ '' (Account: ''
         @ account_number (customer c)
         @ ''). A total of ''
         @ str_int total_txns
         @ '' transactions totaling ''
         @ currency
         @ '' ''
         @ format_fixed True 2 total_volume
         @ '' were identified during the review period from ''
         @ date_start
         @ '' to ''
         @ date_end
         @ ''. The activity is consistent with ''
         @ typology
         @ ''.\<newline>\<newline>II. ACCOUNT AND CUSTOMER INFORMATION\<newline>''
         @ ''\<newline>Account holder ''
         @ name (customer c)
         @ '' maintains account ''
         @ account_number (customer c)
         @ '', opened on ''
         @ account_open_date (customer c)
         @ ''. The customer's declared occupation is ''
         @ occupation (customer c)
         @ '' with expected monthly transaction volume of ''
         @ currency
         @ '' ''
         @ format_float True 2 expected_vol
         @ ''. Current KYC risk rating: ''
         @ kyc_risk_rating (customer c)
         @ ''.\<newline>\<newline>III. DESCRIPTION OF SUSPICIOUS ACTIVITY\<newline>''
         @ ''\<newline>Alert Reason: ''
         @ alert_reason c
         @ ''\<newline>\<newline>Transaction Summary:\<newline>- Total Volume: ''
         @ currency
         @ '' ''
         @ format_fixed True 2 total_volume
         @ ''\<newline>- Transaction Count: ''
         @ str_int total_txns
         @ ''\<newline>- Date Range: ''
         @ date_start
         @ '' to ''
         @ date_end
         @ ''\<newline>\<newline>Suspicious Patterns:\<newline>''
         @ patterns_text
         @ ''\<newline>\<newline>IV. EXPLANATION OF SUSPICION\<newline>\<newline>''
         @ (if investigation_notes c = [] then ''No additional investigation notes provided.'' else investigation_notes c)
         @ ''\<newline>\<newline>The identified patterns are consistent with ''
         @ typology
         @ '' typology under PMLA guidelines.\<newline>\<newline>V. CONCLUSION AND ''
         @ ''RECOMMENDATION\<newline>\<newline>Based on the analysis, this activity''
         @ '' warrants reporting as a Suspicious Transaction Report (STR) under Sec''
         @ ''tion 12 of PMLA, 2002. The FIU-IND should be notified within the presc''
         @ ''ribed timeline. Enhanced monitoring is recommended for this account.''
         @ ''\<newline>\<newline>[This narrative was generated using template fallb''
         @ ''ack -- LLM was unavailable]\<newline>'')"

definition generate_narrative ::
  "llm_orchestrator \<Rightarrow> llm_env \<Rightarrow> case_input \<Rightarrow> stats \<Rightarrow> string list \<Rightarrow> string \<Rightarrow> int
     \<Rightarrow> string \<Rightarrow> string \<Rightarrow> sar_narrative \<times> llm_callback" where
  "generate_narrative self env c st patterns typology risk_score regulatory_context
       template_reference =
     (let callback = \<lparr> prompt_sent = [], response_received = [], model_used = model self,
                        start_time = None, end_time = None, token_count = 0 \<rparr>;
          prompt = build_prompt self c st patterns typology risk_score regulatory_context
                     template_reference;
          callback = callback \<lparr> prompt_sent := prompt \<rparr>;
          (text, callback) =
            (case call_ollama self env prompt of
               Inr response \<Rightarrow>
                 (response,
                  callback \<lparr> start_time := Some (time_start env),
                             end_time := Some (time_end env),
                             response_received := response \<rparr>)
             | Inl e \<Rightarrow>
                 (let fallback = generate_fallback_narrative c st patterns typology
                  in (fallback,
                      callback \<lparr> start_time := Some (time_start env),
                                 end_time := Some (time_end env),
                                 response_received := fallback \<rparr>)))
      in (\<lparr> sar_case_id = case_id c,
             generated_at = now env,
             narrative_text = text,
             sections = parse_narrative text,
             confidence_score = real_of_int risk_score,
             sar_typology = typology,
             red_flags = patterns,
             templates_used = [],
             model_version = model self,
             transaction_stats = st \<rparr>,
          callback))"

section \<open>Audit ledger (\<open>components/audit_logger.py\<close>, \<open>utils/db_utils.py\<close>)\<close>

text \<open>
  A timestamp is the text of a clock reading in a fixed-width format (\<open>isoformat()\<close> in memory,
  \<open>CURRENT_TIMESTAMP\<close> in the database), so that the order of the texts is the order of the
  readings; the model keeps the reading, in ticks of the clock.
\<close>

type_synonym timestamp = nat

datatype json =
    JNull | JBool bool | JInt int | JFloat pyfloat | JStr string
  | JList "json list" | JObj "(string \<times> json) list"

text \<open>An event as \<open>get_audit_trail\<close> returns it: the dictionary built by \<open>log_event\<close> (no
  \<open>id\<close>), or a row of the table \<open>sar_audit_trail\<close> as a dictionary.\<close>

record audit_event =
  ev_id :: "nat option"
  ev_case_id :: string
  ev_timestamp :: timestamp
  ev_event_type :: string
  ev_user_id :: string
  ev_input_data :: "json option"
  ev_retrieved_context :: "json option"
  ev_llm_reasoning :: "string option"
  ev_generated_output :: "string option"
  ev_human_edits :: "json option"
  ev_model_version :: "string option"
  ev_confidence_score :: "real option"
  ev_metadata :: "json option"

text \<open>The optional keyword arguments of \<open>log_event\<close>.\<close>

record event_args =
  input_data :: "json option"
  retrieved_context :: "json option"
  llm_reasoning :: "string option"
  generated_output :: "string option"
  human_edits :: "json option"
  arg_model_version :: "string option"
  arg_confidence_score :: "real option"
  metadata :: "json option"


text \<open>
  What the environment does at one call of \<open>log_event\<close>: the reading of the clock by
  \<open>datetime.now()\<close>, and the fate of the \<open>INSERT\<close>, which either stores the row with the
  database's own reading of the clock or raises (an exception of \<open>json.dumps\<close> or of SQLite,
  which \<open>log_audit_event\<close> catches and logs).
\<close>

datatype insert_outcome = Inserted timestamp | InsertFailed

record log_env =
  clock_now :: timestamp
  db_insert :: insert_outcome

text \<open>The logger: whether \<open>connect()\<close> left a connection, the rows of the table, and the
  dictionary \<open>in_memory_trail\<close>.\<close>

record audit_logger =
  db_conn :: bool
  db_rows :: "audit_event list"
  in_memory_trail :: "string \<rightharpoonup> audit_event list"


text \<open>\<open>json.dumps(x) if x else None\<close>, read back by \<open>json.loads\<close>: a missing or empty
  dictionary is stored as NULL.\<close>

definition stored_json :: "json option \<Rightarrow> json option" where
  "stored_json x = (case x of Some (JObj []) \<Rightarrow> None | _ \<Rightarrow> x)"

text \<open>\<open>AUTOINCREMENT\<close>: one more than the largest id of the table.\<close>

definition next_id :: "audit_event list \<Rightarrow> nat" where
  "next_id rows = Suc (fold max (map (\<lambda>r. case ev_id r of Some i \<Rightarrow> i | None \<Rightarrow> 0) rows) 0)"

definition db_log_audit_event ::
  "log_env \<Rightarrow> string \<Rightarrow> string \<Rightarrow> string \<Rightarrow> event_args \<Rightarrow> audit_logger \<Rightarrow> audit_logger" where
  "db_log_audit_event env cid etype uid args s =
     (if \<not> db_conn s then s
      else case db_insert env of
             InsertFailed \<Rightarrow> s
           | Inserted ts \<Rightarrow>
               s \<lparr> db_rows := db_rows s @
                     [\<lparr> ev_id = Some (next_id (db_rows s)), ev_case_id = cid,
                        ev_timestamp = ts, ev_event_type = etype, ev_user_id = uid,
                        ev_input_data = stored_json (input_data args),
                        ev_retrieved_context = stored_json (retrieved_context args),
                        ev_llm_reasoning = llm_reasoning args,
                        ev_generated_output = generated_output args,
                        ev_human_edits = stored_json (human_edits args),
                        ev_model_version = arg_model_version args,
                        ev_confidence_score = arg_confidence_score args,
                        ev_metadata = stored_json (metadata args) \<rparr>] \<rparr>)"

definition log_event ::
  "log_env \<Rightarrow> string \<Rightarrow> string \<Rightarrow> string \<Rightarrow> event_args \<Rightarrow> audit_logger \<Rightarrow> audit_logger" where
  "log_event env cid etype uid args s =
     (let event = \<lparr> ev_id = None, ev_case_id = cid, ev_timestamp = clock_now env,
                     ev_event_type = etype, ev_user_id = uid,
                     ev_input_data = input_data args,
                     ev_retrieved_context = retrieved_context args,
                     ev_llm_reasoning = llm_reasoning args,
                     ev_generated_output = generated_output args,
                     ev_human_edits = human_edits args,
                     ev_model_version = arg_model_version args,
                     ev_confidence_score = arg_confidence_score args,
                     ev_metadata = metadata args \<rparr>;
          trail = (case in_memory_trail s cid of None \<Rightarrow> [] | Some es \<Rightarrow> es);
          s = s \<lparr> in_memory_trail := (in_memory_trail s)(cid \<mapsto> trail @ [event]) \<rparr>
      in db_log_audit_event env cid etype uid args s)"



text \<open>A sequence of calls of \<open>log_event\<close>, each with what the environment does at it.\<close>

record log_call =
  call_env :: log_env
  call_case_id :: string
  call_event_type :: string
  call_user_id :: string
  call_args :: event_args

definition log_events :: "log_call list \<Rightarrow> audit_logger \<Rightarrow> audit_logger" where
  "log_events calls s =
     foldl (\<lambda>s c. log_event (call_env c) (call_case_id c) (call_event_type c) (call_user_id c)
                    (call_args c) s) s calls"

section \<open>Example inputs\<close>

definition example_lib :: datetime_lib where
  "example_lib =
     \<lparr> strptime = (\<lambda>s f. if s = ''2025-01-15'' \<and> f = ''%Y-%m-%d'' then Some 739266 else None),
       strftime = (\<lambda>d f. if d = 739266 \<and> f = ''%Y-%m-%d'' then ''2025-01-15'' else []) \<rparr>"

definition example_txn :: "real \<Rightarrow> transaction" where
  "example_txn a =
     \<lparr> date = ''2025-01-15'', amount = a, currency = ''INR'', type = ''Cash Deposit'',
       originator = ''Self'', beneficiary = ''ACC-1001'', description = [] \<rparr>"

definition example_customer :: customer_info where
  "example_customer =
     \<lparr> name = ''Asha Rao'', account_number = ''ACC-1001'', kyc_risk_rating = ''Low'',
       occupation = ''Trader'', account_open_date = ''2020-02-01'',
       expected_monthly_volume = Fin 0, declared_income = Fin 0, address = [],
       pan_number = [] \<rparr>"

definition example_case :: case_input where
  "example_case =
     \<lparr> case_id = ''CASE-1'', customer = example_customer,
       transactions = [example_txn 950000, example_txn 950000, example_txn 950000,
                       example_txn 950000],
       alert_reason = ''Repeated deposits'', investigation_notes = [], alert_date = [],
       assigned_analyst = ''system'' \<rparr>"

definition example_stats :: stats where
  "example_stats =
     \<lparr> total_transactions = 4, total_volume = 3800000, total_credits = 3800000,
       total_debits = 0, credit_count = 4, debit_count = 0, avg_amount = 950000,
       max_amount = 950000, min_amount = 950000, date_range_start = ''2025-01-15'',
       date_range_end = ''2025-01-15'', date_range_days = 1,
       transaction_types = [(''Cash Deposit'', 4)], stats_currency = ''INR'',
       unique_originators = 1, unique_beneficiaries = 1 \<rparr>"


definition example_store :: "string \<Rightarrow> nat \<Rightarrow> string \<Rightarrow> query_result option" where
  "example_store query n where_type =
     Some \<lparr> metadatas = [[[(''type'', ''typology''), (''typology'', ''structuring''),
                              (''name'', ''Structuring'')]]],
            distances = [[0.4]] \<rparr>"

definition example_narrative :: string where
  "example_narrative =
     ''I. SUMMARY OF SUSPICIOUS ACTIVITY a II. Account and Customer Information b ''
     @ ''III.DESCRIPTION OF SUSPICIOUS ACTIVITY c IV. EXPLANATION OF SUSPICION d V. CONCLUSION e''"

definition example_unmarked :: string where
  "example_unmarked = '' No data'' @ [CHR 0x0A]"

definition example_sections :: "string list" where
  "example_sections =
     [''I. SUMMARY OF SUSPICIOUS ACTIVITY a '', ''II. Account and Customer Information b '',
      ''III.DESCRIPTION OF SUSPICIOUS ACTIVITY c '', ''IV. EXPLANATION OF SUSPICION d '',
      ''V. CONCLUSION e'']"

definition example_orchestrator :: llm_orchestrator where
  "example_orchestrator =
     \<lparr> model = ''llama3'', temperature = 0.3, max_tokens = 2048,
       base_url = ''http://localhost:11434'',
       system_prompt = ''You are an expert compliance analyst.'',
       user_template = (\<lambda>args. map_option (\<lambda>v. case v of PyStr s \<Rightarrow> ''Case: '' @ s | _ \<Rightarrow> [])
                                 (map_of args ''case_id'')) \<rparr>"

definition failing_env :: llm_env where
  "failing_env =
     \<lparr> langchain_invoke = (\<lambda>m url t n p. Raises ''Connection refused''),
       ollama_chat = (\<lambda>m sys p t n. Raises ''Connection refused''),
       time_start = 100, time_end = 101, now = 102 \<rparr>"





section \<open>Properties\<close>

subsection \<open>Rounding\<close>

lemma round_half_even_int [simp]: "round_half_even (of_int k) = k"
  by (simp add: round_half_even_def)

lemma bitlen_unique:
  fixes k :: int
  assumes "2 ^ n \<le> k" "k < 2 ^ Suc n"
  shows "bitlen k = int n + 1"
proof -
  have pos: "0 < k"
  proof -
    have "(0::int) < 2 ^ n" by simp
    with assms(1) show ?thesis by linarith
  qed
  then have b1: "1 \<le> bitlen k" by (auto simp: bitlen_alt_def)
  define b where "b = nat (bitlen k)"
  have bk: "bitlen k = int b" using b1 by (simp add: b_def)
  have b1': "1 \<le> b" using b1 bk by linarith
  have nb: "nat (bitlen k) = b" "nat (bitlen k - 1) = b - 1" unfolding bk by simp_all
  from bitlen_bounds[OF pos] have lo: "(2::int) ^ (b - 1) \<le> k" and hi: "k < 2 ^ b"
    unfolding nb by blast+
  have "(2::int) ^ n < 2 ^ b" using assms(1) hi by linarith
  then have "n < b" by (rule power_less_imp_less_exp[rotated]) simp
  moreover have "(2::int) ^ (b - 1) < 2 ^ Suc n" using lo assms(2) by linarith
  then have "b - 1 < Suc n" by (rule power_less_imp_less_exp[rotated]) simp
  ultimately have "b = n + 1" using b1' by linarith
  then show ?thesis by (simp add: bk)
qed


lemma float_exponent_ge1:
  assumes "2 ^ n \<le> \<bar>x\<bar>" "\<bar>x\<bar> < 2 ^ Suc n"
  shows "float_exponent x = int n"
proof -
  have one: "1 \<le> \<bar>x\<bar>"
  proof -
    have "(1::real) \<le> 2 ^ n" by simp
    with assms(1) show ?thesis by linarith
  qed
  have "real_of_int (2 ^ n) \<le> \<bar>x\<bar>" using assms(1) by simp
  then have lo: "2 ^ n \<le> \<lfloor>\<bar>x\<bar>\<rfloor>" by (simp only: le_floor_iff)
  have "\<bar>x\<bar> < real_of_int (2 ^ Suc n)" using assms(2) by simp
  then have hi: "\<lfloor>\<bar>x\<bar>\<rfloor> < 2 ^ Suc n" by (simp only: floor_less_iff)
  have "bitlen \<lfloor>\<bar>x\<bar>\<rfloor> = int n + 1" using lo hi by (rule bitlen_unique)
  then show ?thesis using one by (simp add: float_exponent_def)
qed

lemma ulp_nonzero: "ulp x \<noteq> 0"
  by (simp add: ulp_def)

lemma fl_exact:
  assumes "x \<noteq> 0" "x / ulp x = of_int k"
  shows "fl x = x"
proof -
  have "fl x = of_int k * ulp x" using assms by (simp add: fl_def)
  also have "\<dots> = x" using assms(2) ulp_nonzero[of x] by (simp add: field_simps)
  finally show ?thesis .
qed



lemma fl_int:
  fixes n :: int
  assumes "\<bar>n\<bar> \<le> 2 ^ 53"
  shows "fl (of_int n) = of_int n"
proof (cases "n = 0")
  case True
  then show ?thesis by (simp add: fl_def)
next
  case False
  define a where "a = \<bar>n\<bar>"
  have apos: "0 < a" using False by (simp add: a_def)
  have b1: "1 \<le> bitlen a" using apos by (auto simp: bitlen_alt_def)
  define m where "m = nat (bitlen a - 1)"
  have bm: "bitlen a = int m + 1" using b1 by (simp add: m_def)
  have nb: "nat (bitlen a - 1) = m" "nat (bitlen a) = Suc m" unfolding bm by simp_all
  from bitlen_bounds[OF apos] have lo: "2 ^ m \<le> a" and hi: "a < 2 ^ Suc m"
    unfolding nb by blast+
  have absx: "\<bar>real_of_int n\<bar> = real_of_int a" by (simp add: a_def)
  have "real_of_int (2 ^ m) \<le> real_of_int a" using lo by (simp only: of_int_le_iff)
  then have lo': "2 ^ m \<le> \<bar>real_of_int n\<bar>" unfolding absx by simp
  have "real_of_int a < real_of_int (2 ^ Suc m)" using hi by (simp only: of_int_less_iff)
  then have hi': "\<bar>real_of_int n\<bar> < 2 ^ Suc m" unfolding absx by simp
  have e: "float_exponent (of_int n) = int m" using lo' hi' by (rule float_exponent_ge1)
  have "(2::int) ^ m \<le> 2 ^ 53" using lo assms unfolding a_def by (rule order_trans)
  then have m53: "m \<le> 53" by (rule power_le_imp_le_exp[rotated]) simp
  have u: "ulp (of_int n) = 2 powi (int m - 52)"
    by (simp add: ulp_def e)
  show ?thesis
  proof (cases "m \<le> 52")
    case True
    then have "int m - 52 = - int (52 - m)" by simp
    then have "ulp (real_of_int n) = inverse (2 ^ (52 - m))"
      unfolding u by (simp only: power_int_minus power_int_of_nat)
    then have q: "real_of_int n / ulp (real_of_int n) = real_of_int (n * 2 ^ (52 - m))"
      by (simp add: divide_inverse)
    from False have "real_of_int n \<noteq> 0" by simp
    then show ?thesis using q by (rule fl_exact)
  next
    case F: False
    with m53 have m: "m = 53" by simp
    have "a \<le> 2 ^ 53" "2 ^ 53 \<le> a" using lo assms by (simp_all only: m a_def)
    then have a53: "a = 2 ^ 53" by (rule order_antisym)
    have u2: "ulp (real_of_int n) = 2" unfolding u by (simp add: m)
    have "n = 2 ^ 53 \<or> n = - (2 ^ 53)" using a53 unfolding a_def by linarith
    then have "real_of_int n / 2 = real_of_int (n div 2)" by auto
    then have q: "real_of_int n / ulp (real_of_int n) = real_of_int (n div 2)"
      unfolding u2 .
    from False have "real_of_int n \<noteq> 0" by simp
    then show ?thesis using q by (rule fl_exact)
  qed
qed


lemma fl_numeral: "numeral k \<le> (2 ^ 53 :: int) \<Longrightarrow> fl (numeral k) = numeral k"
  using fl_int[of "numeral k"] by simp

lemma fl_zero [simp]: "fl 0 = 0"
  by (simp add: fl_def)



lemma str_nat_digit: "n < 10 \<Longrightarrow> str_nat n = [digit_char n]"
  by (simp add: str_nat.simps)

lemma fl_950000: "fl 950000 = 950000"
  using fl_int[of 950000] by simp

lemma example_sums:
  "float_add 0 950000 = 950000"
  "float_add 950000 950000 = 1900000"
  "float_add 1900000 950000 = 2850000"
  "float_add 2850000 950000 = 3800000"
  "fl (3800000 / 4) = 950000"
  by (simp_all add: float_add_def fl_numeral fl_950000)

lemma example_stats_eq:
  "calculate_transaction_stats example_lib (transactions example_case) = Inr example_stats"
  by (simp add: calculate_transaction_stats_def example_case_def example_txn_def example_lib_def
      example_stats_def py_truediv_def Let_def Counter_def py_min_def py_max_def py_sum_def
      example_sums fl_950000)



lemma format_threshold: "format_fixed True 0 threshold = ''1,000,000''"
proof -
  have r: "round_half_even (\<bar>threshold\<bar> * 10 ^ 0) = 1000000"
    by (simp add: round_half_even_def Let_def threshold_def)
  have s: "str_nat 1000000 = ''1000000''"
    by (simp add: str_nat.simps digit_char_def)
  have c: "commas ''1000000'' = ''1,000,000''"
    by (simp add: commas_def)
  show ?thesis
    unfolding format_fixed_def Let_def r by (simp add: s c threshold_def)
qed

lemma ex_near: "near_threshold example_case = transactions example_case"
  by (simp add: near_threshold_def example_case_def example_txn_def threshold_def)

lemma ex_len: "length (transactions example_case) = 4"
  by (simp add: example_case_def)

lemma str_nat_4: "str_nat 4 = ''4''"
  by (simp add: str_nat.simps digit_char_def)

lemma ex_structuring: "structuring example_case =
   [''Structuring: 4 transactions just below INR 1,000,000 reporting threshold'']"
  by (simp add: structuring_def ex_near ex_len format_threshold str_nat_4)

lemma ex_round_txns: "round_txns example_case = transactions example_case"
  by (simp add: round_txns_def example_case_def example_txn_def py_mod_def)

lemma ex_round: "round_number example_case =
   [''Round-number transactions: 4 transactions in exact round amounts'']"
  by (simp add: round_number_def ex_round_txns ex_len str_nat_4)

lemma pf_truediv_pos: "pf_gt e 0 \<Longrightarrow> \<exists>r. pf_truediv x e = Inr r"
  by (cases e) auto

lemma volume_spike_Inr:
  "\<exists>p. volume_spike c st = Inr p \<and> (\<forall>x\<in>set p. \<not> prefix ''Structuring: '' x)"
proof (cases "pf_gt (expected_monthly_volume (customer c)) 0 \<and> total_volume st > 0")
  case True
  then obtain r where "pf_truediv (total_volume st) (expected_monthly_volume (customer c)) = Inr r"
    using pf_truediv_pos by blast
  with True show ?thesis by (simp add: volume_spike_def)
next
  case False
  then have "volume_spike c st = Inr []" by (auto simp: volume_spike_def)
  then show ?thesis by simp
qed

lemma income_mismatch_Inr:
  "\<exists>p. income_mismatch c st = Inr p \<and> (\<forall>x\<in>set p. \<not> prefix ''Structuring: '' x)"
proof (cases "pf_gt (declared_income (customer c)) 0 \<and> total_volume st > 0")
  case True
  then obtain r where "pf_truediv (total_volume st) (declared_income (customer c)) = Inr r"
    using pf_truediv_pos by blast
  with True show ?thesis by (simp add: income_mismatch_def)
next
  case False
  then have "income_mismatch c st = Inr []" by (auto simp: income_mismatch_def)
  then show ?thesis by simp
qed

lemma other_blocks_not_structuring:
  "\<forall>x\<in>set (rapid_movement c). \<not> prefix ''Structuring: '' x"
  "\<forall>x\<in>set (multiple_small_deposits c). \<not> prefix ''Structuring: '' x"
  "\<forall>x\<in>set (multiple_originators st). \<not> prefix ''Structuring: '' x"
  "\<forall>x\<in>set (round_number c). \<not> prefix ''Structuring: '' x"
  "\<forall>x\<in>set (large_transaction c). \<not> prefix ''Structuring: '' x"
  "\<forall>x\<in>set (high_risk_transfer c). \<not> prefix ''Structuring: '' x"
  by (auto simp: rapid_movement_def multiple_small_deposits_def multiple_originators_def
      round_number_def large_transaction_def high_risk_transfer_def Let_def)

lemma identify_patterns_Inr:
  assumes "transactions c \<noteq> []"
  shows "\<exists>spike mismatch.
           volume_spike c st = Inr spike \<and> income_mismatch c st = Inr mismatch \<and>
           identify_patterns c st =
             Inr (structuring c @ spike @ rapid_movement c @ multiple_small_deposits c
                  @ mismatch @ multiple_originators st @ round_number c
                  @ large_transaction c @ high_risk_transfer c)"
proof -
  obtain spike where s: "volume_spike c st = Inr spike" using volume_spike_Inr by blast
  obtain mismatch where m: "income_mismatch c st = Inr mismatch" using income_mismatch_Inr by blast
  show ?thesis using assms by (simp add: identify_patterns_def s m)
qed

lemma near_threshold_strict:
  "near_threshold c = filter (\<lambda>t. 800000 < amount t \<and> amount t < 1000000) (transactions c)"
  unfolding near_threshold_def threshold_def by (rule filter_cong) auto

text \<open>
  Claim C3. \<open>identify_patterns\<close> never raises, and its result holds a finding that starts with
  \<open>Structuring:\<close> if and only if at least three transactions have an amount strictly between
  800,000 and 1,000,000: the bounds themselves do not count.
\<close>

theorem structuring_iff_three_strictly_between:
  "\<exists>ps. identify_patterns c st = Inr ps \<and>
     ((\<exists>p\<in>set ps. prefix ''Structuring: '' p) \<longleftrightarrow>
        3 \<le> length (filter (\<lambda>t. 800000 < amount t \<and> amount t < 1000000) (transactions c)))"
proof (cases "transactions c = []")
  case True
  then show ?thesis by (simp add: identify_patterns_def)
next
  case False
  from identify_patterns_Inr[OF False, of st] obtain spike mismatch where
    s: "volume_spike c st = Inr spike" and m: "income_mismatch c st = Inr mismatch" and
    ip: "identify_patterns c st =
             Inr (structuring c @ spike @ rapid_movement c @ multiple_small_deposits c
                  @ mismatch @ multiple_originators st @ round_number c
                  @ large_transaction c @ high_risk_transfer c)" by blast
  have s': "\<forall>x\<in>set spike. \<not> prefix ''Structuring: '' x" using volume_spike_Inr[of c st] s by auto
  have m': "\<forall>x\<in>set mismatch. \<not> prefix ''Structuring: '' x" using income_mismatch_Inr[of c st] m by auto
  have st: "(\<exists>p\<in>set (structuring c). prefix ''Structuring: '' p) \<longleftrightarrow> 3 \<le> length (near_threshold c)"
    by (simp add: structuring_def)
  show ?thesis
    unfolding ip near_threshold_strict[symmetric]
    using s' m' st other_blocks_not_structuring
    by (simp add: bex_Un)
qed


lemma crs_shape:
  "\<exists>k. 0 \<le> k \<and> k \<le> 50 \<and>
     (\<forall>ps. calculate_risk_score ps st c = Inr (min (min (int (length ps) * 10) 40 + k) 100))"
proof -
  define v :: int where "v =
     (if pf_gt (expected_monthly_volume (customer c)) 0 \<and> total_volume st > 0
      then (case pf_truediv (total_volume st) (expected_monthly_volume (customer c)) of
              Inl e \<Rightarrow> 0
            | Inr ratio \<Rightarrow> if pf_gt ratio 10 then 25 else if pf_gt ratio 5 then 15
                           else if pf_gt ratio 3 then 10 else 0)
      else 0)"
  define kyc :: int where
    "kyc = (case risk_map (kyc_risk_rating (customer c)) of Some v \<Rightarrow> v | None \<Rightarrow> 5)"
  define cp :: int where
    "cp = (if unique_originators st > 20 then 10 else if unique_originators st > 10 then 5 else 0)"
  have v: "0 \<le> v" "v \<le> 25" by (auto simp: v_def split: sum.splits)
  have kyc: "0 \<le> kyc" "kyc \<le> 15"
    by (auto simp: kyc_def risk_map_def split: option.splits if_splits)
  have cp: "0 \<le> cp" "cp \<le> 10" by (auto simp: cp_def)
  have "calculate_risk_score ps st c = Inr (min (min (int (length ps) * 10) 40 + (v + kyc + cp)) 100)"
    for ps
  proof (cases "pf_gt (expected_monthly_volume (customer c)) 0 \<and> total_volume st > 0")
    case True
    then obtain r where
      r: "pf_truediv (total_volume st) (expected_monthly_volume (customer c)) = Inr r"
      using pf_truediv_pos by blast
    show ?thesis using True r
      by (simp add: calculate_risk_score_def Let_def v_def kyc_def cp_def add_ac)
  next
    case False
    then have c: "(pf_gt (expected_monthly_volume (customer c)) 0 \<and> total_volume st > 0) = False"
      by simp
    show ?thesis
      unfolding calculate_risk_score_def Let_def v_def kyc_def cp_def c
      by (simp add: add_ac)
  qed
  moreover have "0 \<le> v + kyc + cp" "v + kyc + cp \<le> 50" using v kyc cp by auto
  ultimately show ?thesis by blast
qed

text \<open>
  Claim C1. For every list of findings, statistics record and case, \<open>calculate_risk_score\<close>
  returns an integer between 0 and 100, and with the statistics and the case fixed a longer
  list of findings never gives a smaller score.
\<close>

theorem calculate_risk_score_bounded_monotone:
  "(\<exists>n. calculate_risk_score ps st c = Inr n \<and> 0 \<le> n \<and> n \<le> 100) \<and>
   (length ps \<le> length ps' \<longrightarrow>
      (\<exists>n n'. calculate_risk_score ps st c = Inr n \<and> calculate_risk_score ps' st c = Inr n'
          \<and> n \<le> n'))"
proof -
  obtain k where k: "0 \<le> k" "k \<le> 50"
    and eq: "\<And>qs. calculate_risk_score qs st c = Inr (min (min (int (length qs) * 10) 40 + k) 100)"
    using crs_shape by blast
  show ?thesis using k by (auto simp: eq)
qed

theorem calculate_risk_score_bounded_monotone_witness:
  "length [''Structuring: 3''] \<le> length [''Structuring: 3'', ''Volume spike: 4.0x''] \<and>
   (\<exists>n n'. calculate_risk_score [''Structuring: 3''] example_stats example_case = Inr n \<and>
      calculate_risk_score [''Structuring: 3'', ''Volume spike: 4.0x''] example_stats example_case
        = Inr n' \<and> n \<le> n')"
  using calculate_risk_score_bounded_monotone
    [of "[''Structuring: 3'']" example_stats example_case
        "[''Structuring: 3'', ''Volume spike: 4.0x'']"]
  by simp

theorem structuring_iff_three_strictly_between_witness:
  "\<exists>ps. identify_patterns example_case example_stats = Inr ps \<and>
     (\<exists>p\<in>set ps. prefix ''Structuring: '' p)"
  using structuring_iff_three_strictly_between [of example_case example_stats]
  by (simp add: example_case_def example_txn_def)


lemma all_950000_near:
  assumes "\<forall>t\<in>set (transactions c). amount t = 950000"
  shows "near_threshold c = transactions c" "round_txns c = transactions c"
  using assms by (auto simp: near_threshold_def round_txns_def threshold_def py_mod_def
      intro!: filter_True)

text \<open>
  Claim C4, as amended. For a case of four transactions of 950,000 each whose customer has an
  expected monthly volume of 0, and for every statistics record, \<open>identify_patterns\<close> returns
  the structuring finding, the volume-spike block finds nothing, and the risk score of the
  findings is at least 20 (the structuring and the round-number findings count 10 each).
\<close>

theorem four_950000_structuring_score:
  assumes "length (transactions c) = 4"
    and "\<forall>t\<in>set (transactions c). amount t = 950000"
    and "expected_monthly_volume (customer c) = Fin 0"
  shows "\<exists>ps n. identify_patterns c st = Inr ps \<and>
           ''Structuring: 4 transactions just below INR 1,000,000 reporting threshold'' \<in> set ps \<and>
           volume_spike c st = Inr [] \<and>
           calculate_risk_score ps st c = Inr n \<and> 20 \<le> n \<and> n \<le> 100"
proof -
  have ne: "transactions c \<noteq> []" using assms(1) by auto
  from identify_patterns_Inr[OF ne, of st] obtain spike mismatch where
    s: "volume_spike c st = Inr spike" and
    ip: "identify_patterns c st =
             Inr (structuring c @ spike @ rapid_movement c @ multiple_small_deposits c
                  @ mismatch @ multiple_originators st @ round_number c
                  @ large_transaction c @ high_risk_transfer c)" by blast
  have vs: "volume_spike c st = Inr []" using assms(3) by (simp add: volume_spike_def)
  have sc: "structuring c =
      [''Structuring: 4 transactions just below INR 1,000,000 reporting threshold'']"
    by (simp add: structuring_def all_950000_near[OF assms(2)] assms(1) format_threshold str_nat_4)
  have rn: "length (round_number c) = 1"
    by (simp add: round_number_def all_950000_near[OF assms(2)] assms(1))
  define ps where "ps = structuring c @ spike @ rapid_movement c @ multiple_small_deposits c
                  @ mismatch @ multiple_originators st @ round_number c
                  @ large_transaction c @ high_risk_transfer c"
  have len: "2 \<le> length ps" using rn by (simp add: ps_def sc)
  obtain k where k: "0 \<le> k" "k \<le> 50"
    and eq: "\<And>qs. calculate_risk_score qs st c = Inr (min (min (int (length qs) * 10) 40 + k) 100)"
    using crs_shape by blast
  have "20 \<le> min (min (int (length ps) * 10) 40 + k) 100" using len k by auto
  moreover have "min (min (int (length ps) * 10) 40 + k) 100 \<le> 100" by simp
  moreover have "''Structuring: 4 transactions just below INR 1,000,000 reporting threshold'' \<in> set ps"
    by (simp add: ps_def sc)
  ultimately show ?thesis using ip vs eq[of ps] unfolding ps_def[symmetric] by blast
qed




theorem four_950000_structuring_score_witness:
  "\<exists>ps n. identify_patterns example_case example_stats = Inr ps \<and>
      ''Structuring: 4 transactions just below INR 1,000,000 reporting threshold'' \<in> set ps \<and>
      volume_spike example_case example_stats = Inr [] \<and>
      calculate_risk_score ps example_stats example_case = Inr n \<and> 20 \<le> n \<and> n \<le> 100"
proof -
  have 1: "length (transactions example_case) = 4" by (simp add: example_case_def)
  have 2: "\<forall>t\<in>set (transactions example_case). amount t = 950000"
    by (simp add: example_case_def example_txn_def)
  have 3: "expected_monthly_volume (customer example_case) = Fin 0"
    by (simp add: example_case_def example_customer_def)
  show ?thesis by (rule four_950000_structuring_score[OF 1 2 3])
qed

lemma ex_dates_amounts:
  "dates_amounts (transactions example_case) = [(''2025-01-15'', 3800000, 0)]"
  by (simp add: dates_amounts_def example_case_def example_txn_def example_sums)

lemma ex_blocks:
  "volume_spike example_case example_stats = Inr []"
  "rapid_movement example_case = []"
  "multiple_small_deposits example_case = []"
  "income_mismatch example_case example_stats = Inr []"
  "multiple_originators example_stats = []"
  "large_transaction example_case = []"
  "high_risk_transfer example_case = []"
        apply (simp add: volume_spike_def example_case_def example_customer_def)
       apply (simp add: rapid_movement_def ex_dates_amounts)
      apply (simp add: multiple_small_deposits_def small_deposits_def example_case_def example_txn_def)
     apply (simp add: income_mismatch_def example_case_def example_customer_def)
    apply (simp add: multiple_originators_def example_stats_def)
   apply (simp add: large_transaction_def example_case_def example_txn_def)
  apply (simp add: high_risk_transfer_def hr_txns_def high_risk_types_def example_case_def example_txn_def)
  done

lemma ex_identify_patterns:
  "identify_patterns example_case example_stats =
     Inr [''Structuring: 4 transactions just below INR 1,000,000 reporting threshold'',
          ''Round-number transactions: 4 transactions in exact round amounts'']"
proof -
  have ne: "transactions example_case \<noteq> []" by (simp add: example_case_def)
  show ?thesis
    by (simp add: identify_patterns_def ne ex_blocks ex_structuring ex_round)
qed

lemma ex_score:
  "calculate_risk_score
     [''Structuring: 4 transactions just below INR 1,000,000 reporting threshold'',
      ''Round-number transactions: 4 transactions in exact round amounts'']
     example_stats example_case = Inr 20"
  by (simp add: calculate_risk_score_def example_case_def example_customer_def example_stats_def
      risk_map_def)

text \<open>
  The example case has four transactions of 950,000 and an expected monthly volume of 0; its
  findings are the structuring and the round-number finding, and its score is 20, below 40.
\<close>

theorem four_950000_score_below_40_counterexample:
  "calculate_transaction_stats example_lib (transactions example_case) = Inr example_stats \<and>
   identify_patterns example_case example_stats =
     Inr [''Structuring: 4 transactions just below INR 1,000,000 reporting threshold'',
          ''Round-number transactions: 4 transactions in exact round amounts''] \<and>
   calculate_risk_score
     [''Structuring: 4 transactions just below INR 1,000,000 reporting threshold'',
      ''Round-number transactions: 4 transactions in exact round amounts'']
     example_stats example_case = Inr 20 \<and>
   \<not> (40 :: int) \<le> 20"
  by (simp add: example_stats_eq ex_identify_patterns ex_score)


lemma cts_nonempty:
  assumes "txs \<noteq> []"
  shows "\<exists>st. calculate_transaction_stats lib txs = Inr st \<and>
           total_transactions st = int (length txs) \<and>
           total_volume st = py_sum (map (\<lambda>t. \<bar>amount t\<bar>) txs) \<and>
           total_credits st = py_sum (map amount (filter (\<lambda>t. amount t > 0) txs)) \<and>
           total_debits st = py_sum (map (\<lambda>t. \<bar>amount t\<bar>) (filter (\<lambda>t. amount t < 0) txs)) \<and>
           credit_count st = int (length (filter (\<lambda>t. amount t > 0) txs)) \<and>
           debit_count st = int (length (filter (\<lambda>t. amount t < 0) txs)) \<and>
           avg_amount st = fl (py_sum (map (\<lambda>t. \<bar>amount t\<bar>) txs) / real (length txs))"
  using assms
  by (simp add: calculate_transaction_stats_def Let_def py_truediv_def comp_def)





text \<open>
  Claim C6. \<open>calculate_transaction_stats\<close> returns the all-zero, \<open>N/A\<close> record on the empty
  list; on every list it returns a record (no ZeroDivisionError, no other error); and on a
  non-empty list the average amount is the total absolute volume divided by the number of
  transactions (the quotient of the two doubles, as a double).
\<close>

theorem empty_stats_degenerate_and_average:
  "calculate_transaction_stats lib [] =
     Inr \<lparr> total_transactions = 0, total_volume = 0, total_credits = 0, total_debits = 0,
           credit_count = 0, debit_count = 0, avg_amount = 0, max_amount = 0,
           min_amount = 0, date_range_start = ''N/A'', date_range_end = ''N/A'',
           date_range_days = 0, transaction_types = [], stats_currency = ''INR'',
           unique_originators = 0, unique_beneficiaries = 0 \<rparr> \<and>
   (\<exists>st. calculate_transaction_stats lib txs = Inr st \<and>
      (txs \<noteq> [] \<longrightarrow>
         total_volume st = py_sum (map (\<lambda>t. \<bar>amount t\<bar>) txs) \<and>
         total_transactions st = int (length txs) \<and>
         avg_amount st = fl (total_volume st / real (length txs))))"
proof (cases "txs = []")
  case True
  then show ?thesis by (simp add: calculate_transaction_stats_def)
next
  case False
  from cts_nonempty[OF False, of lib] obtain st where
    "calculate_transaction_stats lib txs = Inr st"
    "total_transactions st = int (length txs)"
    "total_volume st = py_sum (map (\<lambda>t. \<bar>amount t\<bar>) txs)"
    "avg_amount st = fl (py_sum (map (\<lambda>t. \<bar>amount t\<bar>) txs) / real (length txs))"
    by blast
  moreover have "calculate_transaction_stats lib [] =
     Inr \<lparr> total_transactions = 0, total_volume = 0, total_credits = 0, total_debits = 0,
           credit_count = 0, debit_count = 0, avg_amount = 0, max_amount = 0,
           min_amount = 0, date_range_start = ''N/A'', date_range_end = ''N/A'',
           date_range_days = 0, transaction_types = [], stats_currency = ''INR'',
           unique_originators = 0, unique_beneficiaries = 0 \<rparr>"
    by (simp add: calculate_transaction_stats_def)
  ultimately show ?thesis by simp
qed

theorem empty_stats_degenerate_and_average_witness:
  "\<exists>st. calculate_transaction_stats example_lib (transactions example_case) = Inr st \<and>
      total_volume st = 3800000 \<and> total_transactions st = 4 \<and> avg_amount st = 950000"
proof -
  have ne: "transactions example_case \<noteq> []" by (simp add: example_case_def)
  from empty_stats_degenerate_and_average [of example_lib "transactions example_case"] ne
  obtain st where st: "calculate_transaction_stats example_lib (transactions example_case) = Inr st"
    "total_volume st = py_sum (map (\<lambda>t. \<bar>amount t\<bar>) (transactions example_case))"
    "total_transactions st = int (length (transactions example_case))"
    "avg_amount st = fl (total_volume st / real (length (transactions example_case)))"
    by blast
  have v: "total_volume st = 3800000"
    using st(2) by (simp add: example_case_def example_txn_def py_sum_def example_sums)
  have "total_transactions st = 4" "avg_amount st = 950000"
    using st(3,4) unfolding v by (simp_all add: example_case_def fl_950000)
  with st(1) v show ?thesis by blast
qed





lemma keyword_boost_Nil: "keyword_boost typology text conf [] = conf"
  by (simp add: keyword_boost_def)

lemma keyword_boost_Cons:
  "keyword_boost typology text conf ((typo, kws) # table) =
     keyword_boost typology text
       (if list_ex (\<lambda>kw. sublist kw text) kws \<and> typo = typology then min 100 (conf + 15) else conf)
       table"
  by (simp add: keyword_boost_def)

lemma keyword_boost_other:
  "typology \<notin> fst ` set table \<Longrightarrow> keyword_boost typology text conf table = conf"
proof (induction table arbitrary: conf)
  case Nil
  then show ?case by (simp add: keyword_boost_Nil)
next
  case (Cons row table)
  obtain typo kws where row: "row = (typo, kws)" by (cases row)
  from Cons.prems have "typo \<noteq> typology" "typology \<notin> fst ` set table" by (auto simp: row)
  then show ?case by (simp add: row keyword_boost_Cons Cons.IH)
qed

lemma keyword_boost_distinct:
  "distinct (map fst table) \<Longrightarrow>
   keyword_boost typology text conf table =
     (if \<exists>kws. (typology, kws) \<in> set table \<and> (\<exists>kw\<in>set kws. sublist kw text)
      then min 100 (conf + 15) else conf)"
proof (induction table arbitrary: conf)
  case Nil
  then show ?case by (simp add: keyword_boost_Nil)
next
  case (Cons row table)
  obtain typo kws where row: "row = (typo, kws)" by (cases row)
  from Cons.prems have d: "distinct (map fst table)" and nin: "typo \<notin> fst ` set table"
    by (auto simp: row)
  show ?case
  proof (cases "typo = typology")
    case True
    with nin have other: "\<And>c. keyword_boost typology text c table = c"
      by (simp add: keyword_boost_other)
    from nin True have "\<And>k. (typology, k) \<notin> set table" by force
    then show ?thesis
      by (auto simp: row keyword_boost_Cons other True list_ex_iff)
  next
    case False
    then show ?thesis
      by (auto simp: row keyword_boost_Cons Cons.IH[OF d])
  qed
qed

lemma keyword_map_distinct: "distinct (map fst keyword_map)"
  by (simp add: keyword_map_def)

lemma keyword_boost_range:
  "0 \<le> conf \<Longrightarrow> conf \<le> 100 \<Longrightarrow> distinct (map fst table) \<Longrightarrow>
     0 \<le> keyword_boost typology text conf table \<and> keyword_boost typology text conf table \<le> 100"
  by (simp add: keyword_boost_distinct)

lemma identify_typology_cases:
  "identify_typology collection_query patterns reason =
     (case retrieved (collection_query
              (''Patterns: '' @ join ''; '' patterns @ ''. Alert: '' @ reason) 1 ''typology'') of
        Inl e \<Rightarrow> Inl e
      | Inr None \<Rightarrow> Inr (''unknown'', 0)
      | Inr (Some (typology, distance)) \<Rightarrow>
          Inr (typology,
               if \<exists>keywords. (typology, keywords) \<in> set keyword_map \<and>
                    (\<exists>kw\<in>set keywords. sublist kw (lower (reason @ '' '' @ join '' '' patterns)))
               then min 100 (max 0 (min 100 ((1 - distance) * 100)) + 15)
               else max 0 (min 100 ((1 - distance) * 100))))"
  unfolding identify_typology_def Let_def keyword_boost_distinct[OF keyword_map_distinct]
  by (rule refl)


text \<open>
  Claim C5. When the store's answer gives a typology and a distance, \<open>identify_typology\<close>
  returns that typology, and its confidence is the distance-based confidence raised by 15 (up
  to 100) exactly when a keyword listed for that same typology occurs in the lowercased
  alert reason and findings; keywords of any other typology change nothing. Without a
  retrieved typology the result is \<open>unknown\<close> with confidence 0. Every returned confidence lies
  between 0 and 100.
\<close>

theorem identify_typology_boost_only_for_retrieved:
  "(retrieved (collection_query (''Patterns: '' @ join ''; '' patterns @ ''. Alert: '' @ reason)
       1 ''typology'') = Inr (Some (typology, distance)) \<longrightarrow>
      identify_typology collection_query patterns reason =
        Inr (typology,
             if \<exists>keywords. (typology, keywords) \<in> set keyword_map \<and>
                  (\<exists>kw\<in>set keywords. sublist kw (lower (reason @ '' '' @ join '' '' patterns)))
             then min 100 (max 0 (min 100 ((1 - distance) * 100)) + 15)
             else max 0 (min 100 ((1 - distance) * 100)))) \<and>
   (retrieved (collection_query (''Patterns: '' @ join ''; '' patterns @ ''. Alert: '' @ reason)
       1 ''typology'') = Inr None \<longrightarrow>
      identify_typology collection_query patterns reason = Inr (''unknown'', 0)) \<and>
   (\<forall>t conf. identify_typology collection_query patterns reason = Inr (t, conf) \<longrightarrow>
      0 \<le> conf \<and> conf \<le> 100)"
proof -
  define r where "r = retrieved (collection_query
              (''Patterns: '' @ join ''; '' patterns @ ''. Alert: '' @ reason) 1 ''typology'')"
  define combined where "combined = lower (reason @ '' '' @ join '' '' patterns)"
  define res where "res = identify_typology collection_query patterns reason"
  have eq: "res =
     (case r of
        Inl e \<Rightarrow> Inl e
      | Inr None \<Rightarrow> Inr (''unknown'', 0)
      | Inr (Some (typology, distance)) \<Rightarrow>
          Inr (typology,
               if \<exists>keywords. (typology, keywords) \<in> set keyword_map \<and>
                    (\<exists>kw\<in>set keywords. sublist kw combined)
               then min 100 (max 0 (min 100 ((1 - distance) * 100)) + 15)
               else max 0 (min 100 ((1 - distance) * 100))))"
    unfolding r_def combined_def res_def by (rule identify_typology_cases)
  have 1: "r = Inr (Some (typology, distance)) \<longrightarrow>
      res = Inr (typology,
             if \<exists>keywords. (typology, keywords) \<in> set keyword_map \<and>
                  (\<exists>kw\<in>set keywords. sublist kw combined)
             then min 100 (max 0 (min 100 ((1 - distance) * 100)) + 15)
             else max 0 (min 100 ((1 - distance) * 100)))"
    by (simp add: eq)
  have 2: "r = Inr None \<longrightarrow> res = Inr (''unknown'', 0)"
    by (simp add: eq)
  have 3: "\<forall>t conf. res = Inr (t, conf) \<longrightarrow> 0 \<le> conf \<and> conf \<le> 100"
    unfolding eq by (auto split: sum.splits option.splits if_splits)
  show ?thesis
    using 1 2 3 unfolding r_def combined_def res_def by blast
qed


lemma lower_example:
  "lower (''Cash below Threshold'' @ '' '' @ join '' '' []) = ''cash below threshold ''"
  by code_simp

theorem identify_typology_boost_only_for_retrieved_witness:
  "identify_typology example_store [] ''Cash below Threshold'' = Inr (''structuring'', 75)"
proof -
  have r: "retrieved (example_store (''Patterns: '' @ join ''; '' [] @ ''. Alert: ''
              @ ''Cash below Threshold'') 1 ''typology'') = Inr (Some (''structuring'', 0.4))"
    by (simp add: retrieved_def example_store_def)
  have "sublist ''threshold'' (''cash below '' @ ''threshold'' @ '' '')"
    by (rule sublist_appendI)
  then have s: "sublist ''threshold'' ''cash below threshold ''" by simp
  have k: "\<exists>keywords. (''structuring'', keywords) \<in> set keyword_map \<and>
             (\<exists>kw\<in>set keywords. sublist kw
                (lower (''Cash below Threshold'' @ '' '' @ join '' '' [])))"
    unfolding lower_example using s by (auto simp: keyword_map_def)
  from identify_typology_boost_only_for_retrieved
         [of example_store "[]" "''Cash below Threshold''" "''structuring''" "0.4"] r k
  show ?thesis by simp
qed

lemma parse_sections_keys:
  "map fst (parse_sections headers narrative) =
     map fst (filter (\<lambda>(key, pat). re_search pat narrative \<noteq> None) headers)"
  by (induction headers narrative rule: parse_sections.induct)
     (auto simp: Let_def split: option.splits)

lemma parse_narrative_nonempty: "parse_narrative narrative \<noteq> []"
  by (simp add: parse_narrative_def Let_def)

lemma strip_decomposition:
  "s = takeWhile is_space s @ strip s @ rev (takeWhile is_space (rev (dropWhile is_space s)))"
proof -
  define d where "d = dropWhile is_space s"
  have "rev d = takeWhile is_space (rev d) @ dropWhile is_space (rev d)" by simp
  then have "rev (rev d) = rev (takeWhile is_space (rev d) @ dropWhile is_space (rev d))"
    by (rule arg_cong)
  then have "d = rev (dropWhile is_space (rev d)) @ rev (takeWhile is_space (rev d))"
    by (simp only: rev_rev_ident rev_append)
  moreover have "s = takeWhile is_space s @ d" by (simp add: d_def)
  ultimately show ?thesis unfolding strip_def d_def by metis
qed

lemma strip_outer_whitespace:
  "\<exists>before after. s = before @ strip s @ after \<and> list_all is_space before
      \<and> list_all is_space after"
proof (intro exI conjI)
  show "s = takeWhile is_space s @ strip s
              @ rev (takeWhile is_space (rev (dropWhile is_space s)))"
    by (rule strip_decomposition)
  show "list_all is_space (takeWhile is_space s)"
    by (auto simp: list_all_iff dest: set_takeWhileD)
  show "list_all is_space (rev (takeWhile is_space (rev (dropWhile is_space s))))"
    by (auto simp: list_all_iff dest: set_takeWhileD)
qed

lemma dropWhile_hd: "xs \<noteq> [] \<Longrightarrow> \<not> P (hd xs) \<Longrightarrow> dropWhile P xs = xs"
  by (cases xs) auto

lemma strip_id:
  assumes "s = [] \<or> (\<not> is_space (hd s) \<and> \<not> is_space (last s))"
  shows "strip s = s"
proof (cases "s = []")
  case True
  then show ?thesis by (simp add: strip_def)
next
  case False
  with assms have h: "\<not> is_space (hd s)" and l: "\<not> is_space (last s)" by auto
  have 1: "dropWhile is_space s = s" using False h by (rule dropWhile_hd)
  have "hd (rev s) = last s" using False by (simp add: hd_rev)
  then have "\<not> is_space (hd (rev s))" using l by simp
  moreover have "rev s \<noteq> []" using False by simp
  ultimately have 2: "dropWhile is_space (rev s) = rev s" by (intro dropWhile_hd)
  show ?thesis by (simp add: strip_def 1 2)
qed

text \<open>
  Claim C8. When each of the five header patterns is found in the text (as it is when the
  markers occur in their order), \<open>parse_narrative\<close> returns exactly the keys I, II, III, IV, V,
  in this order. When none is found it returns the single key I with the entire text, which
  like the body of every section is stripped: the value is the text without the whitespace
  before and after it, and is the text itself when there is none. The result is never empty.
\<close>

theorem parse_narrative_keys:
  "((\<forall>(key, pat) \<in> set section_headers. re_search pat narrative \<noteq> None) \<longrightarrow>
      map fst (parse_narrative narrative) = [''I'', ''II'', ''III'', ''IV'', ''V'']) \<and>
   ((\<forall>(key, pat) \<in> set section_headers. re_search pat narrative = None) \<longrightarrow>
      parse_narrative narrative = [(''I'', strip narrative)] \<and>
      (\<exists>before after. narrative = before @ strip narrative @ after \<and>
          list_all is_space before \<and> list_all is_space after) \<and>
      (narrative = [] \<or> (\<not> is_space (hd narrative) \<and> \<not> is_space (last narrative)) \<longrightarrow>
         parse_narrative narrative = [(''I'', narrative)])) \<and>
   parse_narrative narrative \<noteq> []"
proof (intro conjI impI)
  assume all: "\<forall>(key, pat) \<in> set section_headers. re_search pat narrative \<noteq> None"
  then have f: "filter (\<lambda>(key, pat). re_search pat narrative \<noteq> None) section_headers = section_headers"
    by (intro filter_True) auto
  have k: "map fst (parse_sections section_headers narrative) = map fst section_headers"
    by (simp only: parse_sections_keys f)
  have ne: "parse_sections section_headers narrative \<noteq> []"
    using k by (auto simp: section_headers_def)
  show "map fst (parse_narrative narrative) = [''I'', ''II'', ''III'', ''IV'', ''V'']"
    using ne k by (simp add: parse_narrative_def Let_def section_headers_def)
next
  assume none: "\<forall>(key, pat) \<in> set section_headers. re_search pat narrative = None"
  then have "filter (\<lambda>(key, pat). re_search pat narrative \<noteq> None) section_headers = []"
    by (auto simp: filter_empty_conv)
  then have "map fst (parse_sections section_headers narrative) = []"
    by (simp only: parse_sections_keys list.map)
  then show p: "parse_narrative narrative = [(''I'', strip narrative)]"
    by (simp add: parse_narrative_def Let_def)
  show "\<exists>before after. narrative = before @ strip narrative @ after \<and>
          list_all is_space before \<and> list_all is_space after"
    by (rule strip_outer_whitespace)
  assume "narrative = [] \<or> (\<not> is_space (hd narrative) \<and> \<not> is_space (last narrative))"
  then have "strip narrative = narrative" by (rule strip_id)
  with p show "parse_narrative narrative = [(''I'', narrative)]" by simp
next
  show "parse_narrative narrative \<noteq> []" by (rule parse_narrative_nonempty)
qed

lemma ex_none_found: "parse_sections section_headers example_unmarked = []"
  by code_simp

lemma ex_strip: "strip example_unmarked = ''No data''"
  by code_simp

lemma match_here_re_search:
  "match_here pat s = Some n \<Longrightarrow> \<exists>a b. re_search pat (pre @ s) = Some (a, b)"
proof (induction pre)
  case Nil
  then show ?case by (cases s) auto
next
  case (Cons x xs)
  then show ?case by (auto split: option.splits)
qed

lemma m1: "match_here (snd (section_headers ! 0)) (concat (drop 0 example_sections)) = Some 33"
  by code_simp
lemma m2: "match_here (snd (section_headers ! 1)) (concat (drop 1 example_sections)) = Some 36"
  by code_simp
lemma m3: "match_here (snd (section_headers ! 2)) (concat (drop 2 example_sections)) = Some 38"
  by code_simp
lemma m4: "match_here (snd (section_headers ! 3)) (concat (drop 3 example_sections)) = Some 28"
  by code_simp
lemma m5: "match_here (snd (section_headers ! 4)) (concat (drop 4 example_sections)) = Some 13"
  by code_simp


lemma concat_take_drop: "concat (take i xs) @ concat (drop i xs) = concat xs"
  by (metis append_take_drop_id concat_append)

lemma example_header_found:
  assumes "match_here pat (concat (drop i example_sections)) = Some n"
  shows "re_search pat (concat example_sections) \<noteq> None"
  using match_here_re_search[OF assms, of "concat (take i example_sections)"]
  by (simp add: concat_take_drop)

lemma example_all_headers:
  "\<forall>(key, pat) \<in> set section_headers. re_search pat (concat example_sections) \<noteq> None"
proof -
  have "re_search (snd (section_headers ! i)) (concat example_sections) \<noteq> None"
    if "i < length section_headers" for i
  proof -
    from that have "i < 5" by (simp add: section_headers_def)
    then consider "i = 0" | "i = 1" | "i = 2" | "i = 3" | "i = 4" by linarith
    then show ?thesis
      using example_header_found[OF m1] example_header_found[OF m2] example_header_found[OF m3]
        example_header_found[OF m4] example_header_found[OF m5]
      by cases simp_all
  qed
  then have "\<forall>i < length section_headers.
               re_search (snd (section_headers ! i)) (concat example_sections) \<noteq> None"
    by blast
  then have "\<forall>h \<in> set section_headers. re_search (snd h) (concat example_sections) \<noteq> None"
    by (simp only: all_set_conv_all_nth)
  then show ?thesis by (auto simp del: not_None_eq)
qed

lemma example_no_headers:
  "\<forall>(key, pat) \<in> set section_headers. re_search pat example_unmarked = None"
proof -
  have "map fst (filter (\<lambda>(key, pat). re_search pat example_unmarked \<noteq> None) section_headers)
          = []"
    by (simp only: parse_sections_keys[symmetric] ex_none_found list.map)
  then have "filter (\<lambda>(key, pat). re_search pat example_unmarked \<noteq> None) section_headers = []"
    by simp
  then have "\<forall>h\<in>set section_headers.
               \<not> (case h of (key, pat) \<Rightarrow> re_search pat example_unmarked \<noteq> None)"
    by (simp only: filter_empty_conv)
  then show ?thesis by fastforce
qed

theorem parse_narrative_keys_witness:
  "map fst (parse_narrative (concat example_sections)) = [''I'', ''II'', ''III'', ''IV'', ''V''] \<and>
   parse_narrative example_unmarked = [(''I'', ''No data'')]"
proof -
  from parse_narrative_keys[of "concat example_sections"] example_all_headers
  have a: "map fst (parse_narrative (concat example_sections))
             = [''I'', ''II'', ''III'', ''IV'', ''V'']"
    by blast
  from parse_narrative_keys[of example_unmarked] example_no_headers
  have "parse_narrative example_unmarked = [(''I'', strip example_unmarked)]"
    by blast
  then have b: "parse_narrative example_unmarked = [(''I'', ''No data'')]"
    by (simp only: ex_strip)
  from a b show ?thesis by (rule conjI)
qed

lemma sublist_here: "sublist x (x @ r)"
  by (rule sublist_append_rightI)

lemma sublist_later: "sublist x r \<Longrightarrow> sublist x (a @ r)"
  by (metis sublist_append)

lemma fallback_contains:
  "sublist (name (customer c)) (generate_fallback_narrative c st patterns typology)"
  "sublist (account_number (customer c)) (generate_fallback_narrative c st patterns typology)"
  "sublist (format_fixed True 2 (total_volume st)) (generate_fallback_narrative c st patterns typology)"
  "sublist typology (generate_fallback_narrative c st patterns typology)"
  unfolding generate_fallback_narrative_def Let_def
  by ((rule sublist_here | rule sublist_later)+)+


lemma generate_narrative_fallback:
  assumes "call_ollama self env
             (build_prompt self c st patterns typology risk_score regulatory_context
                template_reference) = Inl e"
  shows "generate_narrative self env c st patterns typology risk_score regulatory_context
           template_reference =
         (\<lparr> sar_case_id = case_id c, generated_at = now env,
             narrative_text = generate_fallback_narrative c st patterns typology,
             sections = parse_narrative (generate_fallback_narrative c st patterns typology),
             confidence_score = real_of_int risk_score, sar_typology = typology,
             red_flags = patterns, templates_used = [], model_version = model self,
             transaction_stats = st \<rparr>,
          \<lparr> prompt_sent = build_prompt self c st patterns typology risk_score
                            regulatory_context template_reference,
             response_received = generate_fallback_narrative c st patterns typology,
             model_used = model self, start_time = Some (time_start env),
             end_time = Some (time_end env), token_count = 0 \<rparr>)"
  unfolding generate_narrative_def Let_def assms by simp

text \<open>
  Claim C7. Whenever the call to the text-generation backend fails, the narrative text that
  \<open>generate_narrative\<close> returns is the fallback narrative; and the fallback narrative contains
  the customer name, the account number, the total volume (as \<open>{:,.2f}\<close> formats it) and the
  typology string.
\<close>

theorem fallback_narrative_on_backend_failure:
  "(call_ollama self env
      (build_prompt self c st patterns typology risk_score regulatory_context
         template_reference) = Inl e \<longrightarrow>
    narrative_text (fst (generate_narrative self env c st patterns typology risk_score
                           regulatory_context template_reference))
      = generate_fallback_narrative c st patterns typology) \<and>
   sublist (name (customer c)) (generate_fallback_narrative c st patterns typology) \<and>
   sublist (account_number (customer c)) (generate_fallback_narrative c st patterns typology) \<and>
   sublist (format_fixed True 2 (total_volume st))
     (generate_fallback_narrative c st patterns typology) \<and>
   sublist typology (generate_fallback_narrative c st patterns typology)"
  using fallback_contains
  by (simp add: generate_narrative_fallback)

lemma format_example_volume: "format_fixed True 2 3800000 = ''3,800,000.00''"
proof -
  have r: "round_half_even (\<bar>3800000\<bar> * 10 ^ 2) = 380000000"
    by (simp add: round_half_even_def Let_def)
  have s: "str_nat 3800000 = ''3800000''" "str_nat 0 = ''0''"
    by (simp_all add: str_nat.simps digit_char_def)
  have c: "commas ''3800000'' = ''3,800,000''"
    by (simp add: commas_def)
  show ?thesis
    unfolding format_fixed_def Let_def r by (simp add: s c)
qed

theorem fallback_narrative_on_backend_failure_witness:
  "narrative_text (fst (generate_narrative example_orchestrator failing_env example_case
       example_stats [''Structuring: 4''] ''structuring'' 20 ''PMLA Section 12'' []))
     = generate_fallback_narrative example_case example_stats [''Structuring: 4'']
         ''structuring'' \<and>
   sublist ''Asha Rao''
     (generate_fallback_narrative example_case example_stats [''Structuring: 4''] ''structuring'') \<and>
   sublist ''ACC-1001''
     (generate_fallback_narrative example_case example_stats [''Structuring: 4''] ''structuring'') \<and>
   sublist ''3,800,000.00''
     (generate_fallback_narrative example_case example_stats [''Structuring: 4''] ''structuring'') \<and>
   sublist ''structuring''
     (generate_fallback_narrative example_case example_stats [''Structuring: 4''] ''structuring'')"
proof -
  have f: "call_ollama example_orchestrator failing_env p = Inl (BackendError ''Connection refused'')"
    for p
    by (simp add: call_ollama_def failing_env_def)
  have n: "name (customer example_case) = ''Asha Rao''"
    "account_number (customer example_case) = ''ACC-1001''"
    "total_volume example_stats = 3800000"
    by (simp_all add: example_case_def example_customer_def example_stats_def)
  from fallback_narrative_on_backend_failure
         [of example_orchestrator failing_env example_case example_stats "[''Structuring: 4'']"
             "''structuring''" 20 "''PMLA Section 12''" "[]"
             "BackendError ''Connection refused''"]
  show ?thesis unfolding n format_example_volume using f by blast
qed

lemma db_conn_log_event [simp]: "db_conn (log_event env cid etype uid args s) = db_conn s"
  by (simp add: log_event_def db_log_audit_event_def Let_def split: insert_outcome.splits)

lemma db_conn_log_events [simp]: "db_conn (log_events calls s) = db_conn s"
  unfolding log_events_def by (induction calls arbitrary: s) simp_all

lemma log_events_Nil [simp]: "log_events [] s = s"
  by (simp add: log_events_def)

















end
